theory Spec2Isabelle
  imports Complex_Main "HOL-Library.Monad_Syntax"
begin

section \<open>Values at run time\<close>

text \<open>
  The client is TypeScript, and its interfaces are erased when it runs: what
  \<^verbatim>\<open>response.data\<close>, the navigation state and a caught \<^verbatim>\<open>err\<close> hold
  is a JavaScript value. The values the program handles are JSON values (the parsed
  body of a response, the state object handed to the router). Numbers are carried
  and never computed on. An object is its list of properties.
\<close>

datatype json =
    JNull
  | JBool bool
  | JNum real
  | JStr string
  | JArr "json list"
  | JObj "(string \<times> json) list"

text \<open>
  Reading a property, \<^verbatim>\<open>v.k\<close> on a value that is neither \<^verbatim>\<open>null\<close> nor
  \<^verbatim>\<open>undefined\<close>: \<open>None\<close> is \<^verbatim>\<open>undefined\<close>. Only an object has
  properties of the names the program reads.
\<close>

fun get_prop :: "json \<Rightarrow> string \<Rightarrow> json option" where
  "get_prop (JObj kvs) k = map_of kvs k"
| "get_prop _ k = None"

text \<open>Optional chaining \<^verbatim>\<open>v?.k\<close>: \<^verbatim>\<open>undefined\<close> when \<open>v\<close> is nullish.\<close>

fun optional_chain :: "json option \<Rightarrow> string \<Rightarrow> json option" where
  "optional_chain None k = None"
| "optional_chain (Some JNull) k = None"
| "optional_chain (Some v) k = get_prop v k"

text \<open>Nullish coalescing \<^verbatim>\<open>v ?? d\<close>.\<close>

fun nullish_coalescing :: "json option \<Rightarrow> json \<Rightarrow> json" where
  "nullish_coalescing None d = d"
| "nullish_coalescing (Some JNull) d = d"
| "nullish_coalescing (Some v) d = v"

text \<open>What \<^verbatim>\<open>!v\<close> and \<^verbatim>\<open>v && ...\<close> test.\<close>

fun truthy :: "json \<Rightarrow> bool" where
  "truthy JNull = False"
| "truthy (JBool b) = b"
| "truthy (JNum n) = (n \<noteq> 0)"
| "truthy (JStr s) = (s \<noteq> [])"
| "truthy (JArr _) = True"
| "truthy (JObj _) = True"

section \<open>The analysis contract (types)\<close>

text \<open>
  The interfaces of \<^verbatim>\<open>types\<close>, field for field. \<^verbatim>\<open>Record<string, number>\<close>
  is the list of its entries; a two-number tuple is a pair; \<^verbatim>\<open>T | null\<close> is an
  option. Landmarks are
  \<^verbatim>\<open>(Record<string, number>[] | null)[] | null\<close>: the sequence or \<^verbatim>\<open>null\<close>,
  each frame a list of records or \<^verbatim>\<open>null\<close>.
\<close>

record PlayerSimilarity =
  player :: string
  overall_similarity :: real
  body_groups :: "(string \<times> real) list"

datatype tip_type = strength | improvement

record CoachingTip =
  type :: tip_type
  body_part :: string
  message :: string

record SwingPhases =
  preparation :: "real \<times> real"
  forward_swing :: "real \<times> real"
  contact :: real
  follow_through :: "real \<times> real"
  recovery :: "real \<times> real"

type_synonym Landmarks = "(string \<times> real) list list option list option"

record AnalysisResponse =
  most_similar_player :: string
  similarities :: "PlayerSimilarity list"
  coaching :: "CoachingTip list"
  phases :: SwingPhases
  landmarks :: Landmarks
  reference_video_url :: "string option"

datatype Hand = Right_hand | Left_hand

fun Hand_string :: "Hand \<Rightarrow> string" where
  "Hand_string Right_hand = ''right''"
| "Hand_string Left_hand = ''left''"

subsection \<open>Reading and writing a JSON value at the declared types\<close>

text \<open>
  Modelled from the spec: the repository has no decoder and no encoder of its own
  (the interfaces are erased when the program runs, and axios parses the body).
  Decoding is modelled as reading a JSON value at the interface that \<^verbatim>\<open>types\<close>
  declares, every declared field required and of its declared type; encoding writes
  the typed value back, the fields in the order of the declaration.
\<close>

fun decode_number :: "json \<Rightarrow> real option" where
  "decode_number (JNum n) = Some n"
| "decode_number _ = None"

fun decode_string :: "json \<Rightarrow> string option" where
  "decode_string (JStr s) = Some s"
| "decode_string _ = None"

fun decode_tuple :: "json \<Rightarrow> (real \<times> real) option" where
  "decode_tuple (JArr [JNum a, JNum b]) = Some (a, b)"
| "decode_tuple _ = None"

fun decode_list :: "(json \<Rightarrow> 'a option) \<Rightarrow> json list \<Rightarrow> 'a list option" where
  "decode_list f [] = Some []"
| "decode_list f (x # xs) =
     (case f x of
        None \<Rightarrow> None
      | Some y \<Rightarrow> (case decode_list f xs of None \<Rightarrow> None | Some ys \<Rightarrow> Some (y # ys)))"

fun decode_array :: "(json \<Rightarrow> 'a option) \<Rightarrow> json \<Rightarrow> 'a list option" where
  "decode_array f (JArr xs) = decode_list f xs"
| "decode_array f _ = None"

fun decode_nullable :: "(json \<Rightarrow> 'a option) \<Rightarrow> json \<Rightarrow> 'a option option" where
  "decode_nullable f JNull = Some None"
| "decode_nullable f v = map_option Some (f v)"

fun decode_entries :: "(string \<times> json) list \<Rightarrow> (string \<times> real) list option" where
  "decode_entries [] = Some []"
| "decode_entries ((k, v) # kvs) =
     (case decode_number v of
        None \<Rightarrow> None
      | Some n \<Rightarrow> (case decode_entries kvs of None \<Rightarrow> None | Some r \<Rightarrow> Some ((k, n) # r)))"

fun decode_Record :: "json \<Rightarrow> (string \<times> real) list option" where
  "decode_Record (JObj kvs) = decode_entries kvs"
| "decode_Record _ = None"

definition field :: "json \<Rightarrow> string \<Rightarrow> (json \<Rightarrow> 'a option) \<Rightarrow> 'a option" where
  "field j k f = (case get_prop j k of None \<Rightarrow> None | Some v \<Rightarrow> f v)"

definition decode_PlayerSimilarity :: "json \<Rightarrow> PlayerSimilarity option" where
  "decode_PlayerSimilarity j = do {
     p \<leftarrow> field j ''player'' decode_string;
     s \<leftarrow> field j ''overall_similarity'' decode_number;
     g \<leftarrow> field j ''body_groups'' decode_Record;
     Some \<lparr> player = p, overall_similarity = s, body_groups = g \<rparr>
   }"

fun decode_tip_type :: "json \<Rightarrow> tip_type option" where
  "decode_tip_type (JStr s) =
     (if s = ''strength'' then Some strength
      else if s = ''improvement'' then Some improvement
      else None)"
| "decode_tip_type _ = None"

definition decode_CoachingTip :: "json \<Rightarrow> CoachingTip option" where
  "decode_CoachingTip j = do {
     t \<leftarrow> field j ''type'' decode_tip_type;
     b \<leftarrow> field j ''body_part'' decode_string;
     m \<leftarrow> field j ''message'' decode_string;
     Some \<lparr> type = t, body_part = b, message = m \<rparr>
   }"

definition decode_SwingPhases :: "json \<Rightarrow> SwingPhases option" where
  "decode_SwingPhases j = do {
     p \<leftarrow> field j ''preparation'' decode_tuple;
     f \<leftarrow> field j ''forward_swing'' decode_tuple;
     c \<leftarrow> field j ''contact'' decode_number;
     t \<leftarrow> field j ''follow_through'' decode_tuple;
     r \<leftarrow> field j ''recovery'' decode_tuple;
     Some \<lparr> preparation = p, forward_swing = f, contact = c,
            follow_through = t, recovery = r \<rparr>
   }"

definition decode_landmarks :: "json \<Rightarrow> Landmarks option" where
  "decode_landmarks =
     decode_nullable (decode_array (decode_nullable (decode_array decode_Record)))"

definition decode_AnalysisResponse :: "json \<Rightarrow> AnalysisResponse option" where
  "decode_AnalysisResponse j = do {
     m \<leftarrow> field j ''most_similar_player'' decode_string;
     s \<leftarrow> field j ''similarities'' (decode_array decode_PlayerSimilarity);
     c \<leftarrow> field j ''coaching'' (decode_array decode_CoachingTip);
     p \<leftarrow> field j ''phases'' decode_SwingPhases;
     l \<leftarrow> field j ''landmarks'' decode_landmarks;
     u \<leftarrow> field j ''reference_video_url'' (decode_nullable decode_string);
     Some \<lparr> most_similar_player = m, similarities = s, coaching = c, phases = p,
            landmarks = l, reference_video_url = u \<rparr>
   }"

fun encode_tuple :: "real \<times> real \<Rightarrow> json" where
  "encode_tuple (a, b) = JArr [JNum a, JNum b]"

fun encode_entry :: "string \<times> real \<Rightarrow> string \<times> json" where
  "encode_entry (k, n) = (k, JNum n)"

definition encode_Record :: "(string \<times> real) list \<Rightarrow> json" where
  "encode_Record r = JObj (map encode_entry r)"

definition encode_array :: "('a \<Rightarrow> json) \<Rightarrow> 'a list \<Rightarrow> json" where
  "encode_array g xs = JArr (map g xs)"

fun encode_nullable :: "('a \<Rightarrow> json) \<Rightarrow> 'a option \<Rightarrow> json" where
  "encode_nullable g None = JNull"
| "encode_nullable g (Some x) = g x"

definition encode_PlayerSimilarity :: "PlayerSimilarity \<Rightarrow> json" where
  "encode_PlayerSimilarity p =
     JObj [(''player'', JStr (player p)),
           (''overall_similarity'', JNum (overall_similarity p)),
           (''body_groups'', encode_Record (body_groups p))]"

fun encode_tip_type :: "tip_type \<Rightarrow> json" where
  "encode_tip_type strength = JStr ''strength''"
| "encode_tip_type improvement = JStr ''improvement''"

definition encode_CoachingTip :: "CoachingTip \<Rightarrow> json" where
  "encode_CoachingTip t =
     JObj [(''type'', encode_tip_type (type t)),
           (''body_part'', JStr (body_part t)),
           (''message'', JStr (message t))]"

definition encode_SwingPhases :: "SwingPhases \<Rightarrow> json" where
  "encode_SwingPhases p =
     JObj [(''preparation'', encode_tuple (preparation p)),
           (''forward_swing'', encode_tuple (forward_swing p)),
           (''contact'', JNum (contact p)),
           (''follow_through'', encode_tuple (follow_through p)),
           (''recovery'', encode_tuple (recovery p))]"

definition encode_landmarks :: "Landmarks \<Rightarrow> json" where
  "encode_landmarks =
     encode_nullable (encode_array (encode_nullable (encode_array encode_Record)))"

definition encode_AnalysisResponse :: "AnalysisResponse \<Rightarrow> json" where
  "encode_AnalysisResponse r =
     JObj [(''most_similar_player'', JStr (most_similar_player r)),
           (''similarities'', encode_array encode_PlayerSimilarity (similarities r)),
           (''coaching'', encode_array encode_CoachingTip (coaching r)),
           (''phases'', encode_SwingPhases (phases r)),
           (''landmarks'', encode_landmarks (landmarks r)),
           (''reference_video_url'', encode_nullable JStr (reference_video_url r))]"

text \<open>A \<^verbatim>\<open>File\<close> is opaque to the client; only its identity matters.\<close>

datatype File = File string

section \<open>The remote analysis client (api/client)\<close>

datatype http_verb = GET | POST

datatype form_value = FileValue File | TextValue string

text \<open>
  The request handed to axios. \<open>timeout\<close> is \<open>None\<close> where neither the instance
  (\<^verbatim>\<open>axios.create({ baseURL: "/api" })\<close>) nor the call gives one; the library's
  default then applies.
\<close>

record request =
  verb :: http_verb
  url :: string
  form :: "(string \<times> form_value) list"
  headers :: "(string \<times> string) list"
  timeout :: "nat option"

record axios_response =
  status :: nat
  data :: json

text \<open>
  A property of a thrown object: it may not be there (\<^verbatim>\<open>"response" in err\<close> is
  false), be there and nullish, or hold a value.
\<close>

datatype 'a js_field = NotIn | Nullish | Has 'a

text \<open>
  A thrown value, \<^verbatim>\<open>err: unknown\<close>, by what the program can observe of it:
  a value that is no object (or is \<^verbatim>\<open>null\<close>), or an object, with whether it is
  an \<^verbatim>\<open>Error\<close>, its \<^verbatim>\<open>message\<close>, and its \<^verbatim>\<open>response\<close> property.
\<close>

datatype js_thrown =
    Primitive
  | Object bool string "axios_response js_field"

text \<open>
  The HTTP layer is the environment: what axios settles a request with, a response
  (fulfilled) or a thrown value (rejected).
\<close>

type_synonym transport = "request \<Rightarrow> js_thrown + axios_response"

definition api_baseURL :: string where
  "api_baseURL = ''/api''"

definition analyze_request :: "File \<Rightarrow> Hand \<Rightarrow> request" where
  "analyze_request videoFile hand =
     \<lparr> verb = POST,
       url = api_baseURL @ ''/analyze'',
       form = [(''video'', FileValue videoFile), (''hand'', TextValue (Hand_string hand))],
       headers = [(''Content-Type'', ''multipart/form-data'')],
       timeout = Some 300000 \<rparr>"

definition analyzeSwing :: "transport \<Rightarrow> File \<Rightarrow> Hand \<Rightarrow> js_thrown + json" where
  "analyzeSwing http videoFile hand =
     (case http (analyze_request videoFile hand) of
        Inl err \<Rightarrow> Inl err
      | Inr response \<Rightarrow> Inr (data response))"

definition health_request :: request where
  "health_request =
     \<lparr> verb = GET,
       url = api_baseURL @ ''/health'',
       form = [],
       headers = [],
       timeout = None \<rparr>"

definition healthCheck :: "transport \<Rightarrow> js_thrown + json" where
  "healthCheck http =
     (case http health_request of
        Inl err \<Rightarrow> Inl err
      | Inr response \<Rightarrow> Inr (data response))"

text \<open>
  The time a request may take, in milliseconds, given the library's default \<open>d\<close>
  for a request that sets none.
\<close>

definition effective_timeout :: "nat \<Rightarrow> request \<Rightarrow> nat" where
  "effective_timeout d req = (case timeout req of None \<Rightarrow> d | Some t \<Rightarrow> t)"

section \<open>The submission workflow (pages/UploadPage)\<close>

text \<open>
  The four \<^verbatim>\<open>useState\<close> cells of the component. \<open>error\<close> is typed
  \<^verbatim>\<open>string | null\<close>; \<open>JNull\<close> is \<^verbatim>\<open>null\<close>, and the cell holds whatever
  value \<^verbatim>\<open>setError\<close> is given.
\<close>

record page_state =
  file' :: "File option"
  hand :: Hand
  isLoading :: bool
  error :: json

definition initial_page :: page_state where
  "initial_page = \<lparr> file' = None, hand = Right_hand, isLoading = False, error = JNull \<rparr>"

text \<open>\<^verbatim>\<open>navigate(to, { state })\<close>.\<close>

record navigation =
  to :: string
  state :: json

definition generic_message :: string where
  "generic_message = ''Something went wrong. Please try again.''"

text \<open>\<^verbatim>\<open>err.response?.data?.detail\<close>, for an \<open>err\<close> that has the property.\<close>

fun response_detail :: "axios_response js_field \<Rightarrow> json option" where
  "response_detail (Has r) = optional_chain (Some (data r)) ''detail''"
| "response_detail _ = None"

text \<open>The \<^verbatim>\<open>message\<close> that the \<^verbatim>\<open>catch\<close> clause computes from \<open>err\<close>.\<close>

fun failure_message :: "js_thrown \<Rightarrow> json" where
  "failure_message Primitive = JStr generic_message"
| "failure_message (Object is_Error msg resp) =
     (let message = JStr generic_message;
          message = (if is_Error then JStr msg else message);
          message = (if resp \<noteq> NotIn
                     then nullish_coalescing (response_detail resp) message
                     else message)
      in message)"

text \<open>
  \<^verbatim>\<open>handleSubmit\<close> is asynchronous. \<open>handleSubmit_begin\<close> is what runs up to
  the \<^verbatim>\<open>await\<close>: it returns the new state and the call to \<^verbatim>\<open>analyzeSwing\<close>
  it started, if any, with the \<open>file\<close> and \<open>hand\<close> the closure holds.
  \<open>handleSubmit_resume\<close> is what runs once that call has settled, on the state
  of that moment: the rest of the \<^verbatim>\<open>try\<close>, or the \<^verbatim>\<open>catch\<close>, then the
  \<^verbatim>\<open>finally\<close>. \<open>createObjectURL\<close> is the browser's.
\<close>

definition handleSubmit_begin :: "page_state \<Rightarrow> page_state \<times> (File \<times> Hand) option" where
  "handleSubmit_begin s =
     (case file' s of
        None \<Rightarrow> (s, None)
      | Some f \<Rightarrow> (s\<lparr> isLoading := True, error := JNull \<rparr>, Some (f, hand s)))"

definition handleSubmit_resume ::
  "(File \<Rightarrow> string) \<Rightarrow> File \<Rightarrow> js_thrown + json \<Rightarrow> page_state
     \<Rightarrow> page_state \<times> navigation option" where
  "handleSubmit_resume createObjectURL f settled s =
     (case settled of
        Inr result \<Rightarrow>
          (let videoUrl = createObjectURL f
           in (s\<lparr> isLoading := False \<rparr>,
               Some \<lparr> to = ''/results'',
                      state = JObj [(''result'', result), (''userVideoUrl'', JStr videoUrl)] \<rparr>))
      | Inl err \<Rightarrow>
          (s\<lparr> error := failure_message err, isLoading := False \<rparr>, None))"

text \<open>One whole run of \<^verbatim>\<open>handleSubmit\<close>, nothing else happening in between.\<close>

definition handleSubmit ::
  "transport \<Rightarrow> (File \<Rightarrow> string) \<Rightarrow> page_state \<Rightarrow> page_state \<times> navigation option" where
  "handleSubmit http createObjectURL s =
     (case handleSubmit_begin s of
        (s', None) \<Rightarrow> (s', None)
      | (s', Some (f, h)) \<Rightarrow>
          handleSubmit_resume createObjectURL f (analyzeSwing http f h) s')"

subsection \<open>What the page renders, and the events it offers\<close>

record upload_form =
  VideoUploader_file :: "File option"
  ErrorMessage_message :: "json option"
  AnalysisOptions_hand :: Hand
  AnalysisOptions_isDisabled :: bool
  AnalysisOptions_isLoading :: bool

datatype upload_view = LoadingState | UploadForm upload_form

definition UploadPage :: "page_state \<Rightarrow> upload_view" where
  "UploadPage s =
     (if isLoading s then LoadingState
      else UploadForm
        \<lparr> VideoUploader_file = file' s,
          ErrorMessage_message = (if truthy (error s) then Some (error s) else None),
          AnalysisOptions_hand = hand s,
          AnalysisOptions_isDisabled = (file' s = None),
          AnalysisOptions_isLoading = isLoading s \<rparr>)"

text \<open>
  The callbacks the page hands to its children. \<^verbatim>\<open><LoadingState />\<close> is given
  none; \<^verbatim>\<open>onRetry\<close> exists only while the error message is rendered.
\<close>

datatype ui_event = onFileChange "File option" | onRetry | onHandChange Hand | onSubmit

fun offers :: "upload_view \<Rightarrow> ui_event \<Rightarrow> bool" where
  "offers LoadingState e = False"
| "offers (UploadForm v) onRetry = (ErrorMessage_message v \<noteq> None)"
| "offers (UploadForm v) e = True"

text \<open>
  A mounted page: its state, the calls to \<^verbatim>\<open>analyzeSwing\<close> that have not
  settled yet, and the navigations it has asked for.
\<close>

record workflow =
  page :: page_state
  in_flight :: "(File \<times> Hand) list"
  navigations :: "navigation list"

fun handler :: "ui_event \<Rightarrow> workflow \<Rightarrow> workflow" where
  "handler (onFileChange f) w = w\<lparr> page := (page w)\<lparr> file' := f \<rparr> \<rparr>"
| "handler onRetry w = w\<lparr> page := (page w)\<lparr> error := JNull \<rparr> \<rparr>"
| "handler (onHandChange h) w = w\<lparr> page := (page w)\<lparr> hand := h \<rparr> \<rparr>"
| "handler onSubmit w =
     (case handleSubmit_begin (page w) of
        (s', None) \<Rightarrow> w\<lparr> page := s' \<rparr>
      | (s', Some call) \<Rightarrow> w\<lparr> page := s', in_flight := in_flight w @ [call] \<rparr>)"

text \<open>A user can only raise an event that the rendered view offers.\<close>

definition user_event :: "ui_event \<Rightarrow> workflow \<Rightarrow> workflow" where
  "user_event e w = (if offers (UploadPage (page w)) e then handler e w else w)"

text \<open>
  A call in flight settles (here the oldest), and its \<^verbatim>\<open>handleSubmit\<close> resumes
  on the state the page has by then.
\<close>

definition settle :: "transport \<Rightarrow> (File \<Rightarrow> string) \<Rightarrow> workflow \<Rightarrow> workflow" where
  "settle http createObjectURL w =
     (case in_flight w of
        [] \<Rightarrow> w
      | (f, h) # rest \<Rightarrow>
          (case handleSubmit_resume createObjectURL f (analyzeSwing http f h) (page w) of
             (s', nav) \<Rightarrow>
               \<lparr> page = s', in_flight = rest,
                 navigations = navigations w @ (case nav of None \<Rightarrow> [] | Some n \<Rightarrow> [n]) \<rparr>))"

text \<open>
  The states of the spec, read off what the page renders: the loading view, the form
  with the error message, the form without it.
\<close>

datatype phase = Idle | Submitting | Failed json

definition phase_of :: "page_state \<Rightarrow> phase" where
  "phase_of s =
     (if isLoading s then Submitting
      else if truthy (error s) then Failed (error s)
      else Idle)"

section \<open>The result hand-off (pages/ResultPage, App)\<close>

record results_props =
  OverallSimilarity_similarities :: "json option"
  OverallSimilarity_mostSimilarPlayer :: "json option"
  BodyGroupChart_similarities :: "json option"
  VideoComparison_userVideoUrl :: "json option"
  VideoComparison_referenceVideoUrl :: "json option"
  VideoComparison_mostSimilarPlayer :: "json option"
  CoachingFeedback_coaching :: "json option"

text \<open>
  What \<^verbatim>\<open>ResultPage\<close> returns: the paragraph and the button of the first
  \<^verbatim>\<open>return\<close> (its text, its label, where its \<^verbatim>\<open>onClick\<close> navigates), or the
  back button's target and the props of the four children.
\<close>

datatype result_view =
    NoResults string string string
  | Results string results_props

definition no_results_view :: result_view where
  "no_results_view = NoResults ''No analysis results found.'' ''Upload a Video'' ''/''"

text \<open>\<open>ResultPage st\<close>: the component on \<^verbatim>\<open>location.state\<close> being \<open>st\<close>.\<close>

definition ResultPage :: "json \<Rightarrow> result_view" where
  "ResultPage st =
     (case optional_chain (Some st) ''result'' of
        None \<Rightarrow> no_results_view
      | Some result \<Rightarrow>
          if \<not> truthy result then no_results_view
          else Results ''/''
            \<lparr> OverallSimilarity_similarities = get_prop result ''similarities'',
              OverallSimilarity_mostSimilarPlayer = get_prop result ''most_similar_player'',
              BodyGroupChart_similarities = get_prop result ''similarities'',
              VideoComparison_userVideoUrl = get_prop st ''userVideoUrl'',
              VideoComparison_referenceVideoUrl = get_prop result ''reference_video_url'',
              VideoComparison_mostSimilarPlayer = get_prop result ''most_similar_player'',
              CoachingFeedback_coaching = get_prop result ''coaching'' \<rparr>)"

text \<open>The routes of \<^verbatim>\<open>App\<close>.\<close>

datatype route_element = UploadPage_element | ResultPage_element

definition routes :: "string \<Rightarrow> route_element option" where
  "routes p =
     (if p = ''/'' then Some UploadPage_element
      else if p = ''/results'' then Some ResultPage_element
      else None)"

section \<open>Scenarios\<close>

text \<open>
  Concrete inputs for the examples below: a selected video, the browser's object URL,
  and what the HTTP layer settles the request with. On a status outside 2xx and on a
  timeout axios rejects with an \<^verbatim>\<open>Error\<close>; the first carries the response, the
  second carries none.
\<close>

definition swing_video :: File where
  "swing_video = File ''swing.mp4''"

fun blob_url :: "File \<Rightarrow> string" where
  "blob_url (File n) = ''blob:'' @ n"

definition ready_page :: page_state where
  "ready_page = initial_page\<lparr> file' := Some swing_video \<rparr>"

definition scenario_payload :: json where
  "scenario_payload =
     JObj [(''most_similar_player'', JStr ''Federer''),
           (''similarities'',
              JArr [JObj [(''player'', JStr ''Federer''),
                          (''overall_similarity'', JNum (92 / 100)),
                          (''body_groups'', JObj [(''arm'', JNum (9 / 10))])]]),
           (''coaching'',
              JArr [JObj [(''type'', JStr ''strength''),
                          (''body_part'', JStr ''hip''),
                          (''message'', JStr ''Good rotation'')]]),
           (''phases'',
              JObj [(''preparation'', JArr [JNum 0, JNum 1]),
                    (''forward_swing'', JArr [JNum 1, JNum 2]),
                    (''contact'', JNum 2),
                    (''follow_through'', JArr [JNum 2, JNum 3]),
                    (''recovery'', JArr [JNum 3, JNum 4])]),
           (''landmarks'', JNull),
           (''reference_video_url'', JStr ''https://...'')]"

definition server_ok_scenario :: transport where
  "server_ok_scenario req = Inr \<lparr> status = 200, data = scenario_payload \<rparr>"

definition incomplete_payload :: json where
  "incomplete_payload = JObj [(''most_similar_player'', JStr ''Federer'')]"

definition server_ok_incomplete :: transport where
  "server_ok_incomplete req = Inr \<lparr> status = 200, data = incomplete_payload \<rparr>"

definition status_500_text :: string where
  "status_500_text = ''Request failed with status code 500''"

definition server_500_detail :: transport where
  "server_500_detail req =
     Inl (Object True status_500_text
            (Has \<lparr> status = 500, data = JObj [(''detail'', JStr ''video too short'')] \<rparr>))"

definition server_500_no_detail :: transport where
  "server_500_no_detail req =
     Inl (Object True status_500_text (Has \<lparr> status = 500, data = JObj [] \<rparr>))"

definition timeout_text :: string where
  "timeout_text = ''timeout of 300000ms exceeded''"

definition server_timeout :: transport where
  "server_timeout req = Inl (Object True timeout_text NotIn)"

definition mounted :: "page_state \<Rightarrow> workflow" where
  "mounted s = \<lparr> page = s, in_flight = [], navigations = [] \<rparr>"

definition submitting_workflow :: workflow where
  "submitting_workflow = user_event onSubmit (mounted ready_page)"

definition failed_page :: page_state where
  "failed_page =
     \<lparr> file' = Some swing_video, hand = Left_hand, isLoading = False,
       error = JStr ''video too short'' \<rparr>"


definition landmarks_payload :: json where
  "landmarks_payload =
     JObj [(''most_similar_player'', JStr ''Federer''),
           (''similarities'', JArr []),
           (''coaching'', JArr []),
           (''phases'',
              JObj [(''preparation'', JArr [JNum 0, JNum 1]),
                    (''forward_swing'', JArr [JNum 1, JNum 2]),
                    (''contact'', JNum 2),
                    (''follow_through'', JArr [JNum 2, JNum 3]),
                    (''recovery'', JArr [JNum 3, JNum 4])]),
           (''landmarks'', JArr [JNull, JArr [JObj [(''wrist_x'', JNum (1 / 2))]]]),
           (''reference_video_url'', JNull)]"

definition landmarks_response :: AnalysisResponse where
  "landmarks_response =
     \<lparr> most_similar_player = ''Federer'', similarities = [], coaching = [],
       phases = \<lparr> preparation = (0, 1), forward_swing = (1, 2), contact = 2,
                  follow_through = (2, 3), recovery = (3, 4) \<rparr>,
       landmarks = Some [None, Some [[(''wrist_x'', 1 / 2)]]],
       reference_video_url = None \<rparr>"

section \<open>The remote analysis client: what it returns\<close>

text \<open>
  C1, as stated, fails: a success body that lacks required fields is returned, not
  rejected. The server answers 200 with \<^verbatim>\<open>{"most_similar_player":"Federer"}\<close>;
  \<open>analyzeSwing\<close> resolves with that body, which is no Analysis Response.
\<close>

theorem analyzeSwing_returns_incomplete_body:
  "analyzeSwing server_ok_incomplete swing_video Right_hand = Inr incomplete_payload
   \<and> decode_AnalysisResponse incomplete_payload = None"
  by (simp add: analyzeSwing_def server_ok_incomplete_def incomplete_payload_def
      decode_AnalysisResponse_def field_def)

text \<open>
  C1, amended: for every video and hand, \<open>analyzeSwing\<close> either resolves with the
  body of the fulfilled response exactly as the HTTP layer delivered it (nothing is
  decoded or checked), or rejects with exactly the value the HTTP layer rejected with.
\<close>

theorem analyzeSwing_hands_body_through:
  "(\<exists>response. http (analyze_request v h) = Inr response
       \<and> analyzeSwing http v h = Inr (data response))
   \<or> (\<exists>err. http (analyze_request v h) = Inl err \<and> analyzeSwing http v h = Inl err)"
  by (cases "http (analyze_request v h)") (simp_all add: analyzeSwing_def)

text \<open>
  C4, as stated, fails: \<open>healthCheck\<close> sets no timeout. Its request carries none,
  while the request of \<open>analyzeSwing\<close> carries 300000; under the library's default
  of 0 (no timeout) the two differ.
\<close>

theorem healthCheck_sets_no_timeout:
  "timeout health_request = None
   \<and> timeout (analyze_request swing_video Right_hand) = Some 300000
   \<and> effective_timeout 0 health_request
       \<noteq> effective_timeout 0 (analyze_request swing_video Right_hand)"
  by (simp add: health_request_def analyze_request_def effective_timeout_def)

text \<open>
  C4, amended: \<open>healthCheck\<close> sends \<^verbatim>\<open>GET /api/health\<close> through the same axios
  instance with no timeout of its own, so the library's default \<open>d\<close> applies to it,
  whereas \<open>analyzeSwing\<close> waits 300000 ms whatever the default. Like
  \<open>analyzeSwing\<close> it rejects with exactly the value the HTTP layer rejected with,
  and otherwise returns the body undecoded.
\<close>

theorem healthCheck_policy:
  "verb health_request = GET \<and> url health_request = ''/api/health''
   \<and> effective_timeout d health_request = d
   \<and> effective_timeout d (analyze_request v h) = 300000
   \<and> ((\<exists>response. http health_request = Inr response
           \<and> healthCheck http = Inr (data response))
      \<or> (\<exists>err. http health_request = Inl err \<and> healthCheck http = Inl err))"
  by (cases "http health_request")
     (simp_all add: health_request_def analyze_request_def effective_timeout_def
        healthCheck_def api_baseURL_def)

section \<open>The contract: round trips\<close>

lemma decode_number_Some: "decode_number v = Some n \<Longrightarrow> v = JNum n"
  by (cases v) simp_all

lemma decode_entries_encode: "decode_entries kvs = Some r \<Longrightarrow> map encode_entry r = kvs"
proof (induction kvs arbitrary: r)
  case Nil
  then show ?case by simp
next
  case (Cons kv kvs)
  obtain k v where kv: "kv = (k, v)" by (cases kv)
  from Cons.prems kv obtain n r' where
    n: "decode_number v = Some n" and r': "decode_entries kvs = Some r'" and r: "r = (k, n) # r'"
    by (auto split: option.splits)
  from Cons.IH [OF r'] decode_number_Some [OF n] r kv show ?case
    by simp
qed

lemma encode_entries_decode: "decode_entries (map encode_entry r) = Some r"
  by (induction r) auto

lemma decode_Record_encode: "decode_Record j = Some r \<Longrightarrow> encode_Record r = j"
  by (cases j) (simp_all add: encode_Record_def decode_entries_encode)

lemma encode_Record_decode: "decode_Record (encode_Record r) = Some r"
  by (simp add: encode_Record_def encode_entries_decode)

lemma decode_list_encode:
  assumes "\<And>x y. x \<in> set xs \<Longrightarrow> f x = Some y \<Longrightarrow> g y = x"
    and "decode_list f xs = Some ys"
  shows "map g ys = xs"
  using assms
proof (induction xs arbitrary: ys)
  case Nil
  then show ?case by simp
next
  case (Cons x xs)
  from Cons.prems(2) obtain y ys' where
    y: "f x = Some y" and ys': "decode_list f xs = Some ys'" and ys: "ys = y # ys'"
    by (auto split: option.splits)
  have "map g ys' = xs"
    using Cons.IH [OF _ ys'] Cons.prems(1) by simp
  moreover have "g y = x"
    using Cons.prems(1) y by simp
  ultimately show ?case using ys by simp
qed

lemma encode_list_decode:
  assumes "\<And>y. y \<in> set ys \<Longrightarrow> f (g y) = Some y"
  shows "decode_list f (map g ys) = Some ys"
  using assms by (induction ys) auto

lemma decode_array_encode:
  assumes "\<And>x y. f x = Some y \<Longrightarrow> g y = x"
    and "decode_array f j = Some ys"
  shows "encode_array g ys = j"
proof (cases j)
  case (JArr xs)
  with assms(2) have "decode_list f xs = Some ys" by simp
  then have "map g ys = xs" using assms(1) by (rule decode_list_encode [rotated])
  with JArr show ?thesis by (simp add: encode_array_def)
qed (use assms(2) in simp_all)

lemma encode_array_decode:
  assumes "\<And>y. f (g y) = Some y"
  shows "decode_array f (encode_array g ys) = Some ys"
  by (simp add: encode_array_def encode_list_decode assms)

lemma decode_nullable_encode:
  assumes "\<And>y. f j = Some y \<Longrightarrow> g y = j"
    and "decode_nullable f j = Some v"
  shows "encode_nullable g v = j"
  using assms by (cases j; cases v) auto

lemma encode_nullable_decode:
  assumes "\<And>y. f (g y) = Some y" and "\<And>y. g y \<noteq> JNull"
  shows "decode_nullable f (encode_nullable g v) = Some v"
proof (cases v)
  case None
  then show ?thesis by simp
next
  case (Some y)
  with assms [of y] show ?thesis by (cases "g y") simp_all
qed

lemma decode_frame_encode:
  "decode_nullable (decode_array decode_Record) j = Some fr
    \<Longrightarrow> encode_nullable (encode_array encode_Record) fr = j"
  by (rule decode_nullable_encode [rotated], assumption)
     (rule decode_array_encode [rotated], assumption, rule decode_Record_encode)

lemma decode_landmarks_encode: "decode_landmarks j = Some l \<Longrightarrow> encode_landmarks l = j"
  unfolding decode_landmarks_def encode_landmarks_def
  by (rule decode_nullable_encode [rotated], assumption)
     (rule decode_array_encode [rotated], assumption, rule decode_frame_encode)

lemma encode_frame_decode:
  "decode_nullable (decode_array decode_Record) (encode_nullable (encode_array encode_Record) fr)
     = Some fr"
  by (rule encode_nullable_decode)
     (simp_all add: encode_array_decode encode_Record_decode, simp add: encode_array_def)

lemma encode_landmarks_decode: "decode_landmarks (encode_landmarks l) = Some l"
  unfolding decode_landmarks_def encode_landmarks_def
  by (rule encode_nullable_decode)
     (simp_all add: encode_array_decode encode_frame_decode, simp add: encode_array_def)


text \<open>
  C8: decoding an Analysis Response and encoding it again gives back the
  \<^verbatim>\<open>landmarks\<close> field exactly as it was: \<^verbatim>\<open>null\<close> for the whole sequence,
  \<^verbatim>\<open>null\<close> for a frame, and a frame's records each come back as themselves.
  Conversely every typed landmarks value survives encoding and decoding, so no two
  of them are confused.
\<close>

theorem landmarks_round_trip:
  "(decode_AnalysisResponse j = Some r \<longrightarrow>
      get_prop (encode_AnalysisResponse r) ''landmarks'' = get_prop j ''landmarks'')
   \<and> decode_landmarks (encode_landmarks l) = Some l"
proof (intro conjI impI)
  assume "decode_AnalysisResponse j = Some r"
  then obtain v where v: "get_prop j ''landmarks'' = Some v"
    and l: "decode_landmarks v = Some (landmarks r)"
    by (auto simp: decode_AnalysisResponse_def field_def bind_eq_Some_conv split: option.splits)
  have "get_prop (encode_AnalysisResponse r) ''landmarks'' = Some (encode_landmarks (landmarks r))"
    by (simp add: encode_AnalysisResponse_def)
  with v decode_landmarks_encode [OF l] show
    "get_prop (encode_AnalysisResponse r) ''landmarks'' = get_prop j ''landmarks''"
    by simp
next
  show "decode_landmarks (encode_landmarks l) = Some l" by (rule encode_landmarks_decode)
qed

text \<open>
  C8, at a payload with all three levels: the sequence is present, its first frame is
  \<^verbatim>\<open>null\<close>, its second frame holds one record.
\<close>

theorem landmarks_round_trip_witness:
  "decode_AnalysisResponse landmarks_payload = Some landmarks_response
   \<and> get_prop (encode_AnalysisResponse landmarks_response) ''landmarks''
       = Some (JArr [JNull, JArr [JObj [(''wrist_x'', JNum (1 / 2))]]])
   \<and> get_prop landmarks_payload ''landmarks''
       = Some (JArr [JNull, JArr [JObj [(''wrist_x'', JNum (1 / 2))]]])"
proof -
  have d: "decode_AnalysisResponse landmarks_payload = Some landmarks_response"
    by (simp add: decode_AnalysisResponse_def field_def landmarks_payload_def
        landmarks_response_def decode_landmarks_def decode_SwingPhases_def)
  have g: "get_prop landmarks_payload ''landmarks''
       = Some (JArr [JNull, JArr [JObj [(''wrist_x'', JNum (1 / 2))]]])"
    by (simp add: landmarks_payload_def)
  from landmarks_round_trip [of landmarks_payload landmarks_response] d g show ?thesis
    by simp
qed

section \<open>The submission workflow: failure, success, re-entry\<close>

text \<open>
  One run of \<open>handleSubmit\<close> with a file selected, by how the call settled.
\<close>

lemma handleSubmit_rejected:
  assumes "file' s = Some f" and "http (analyze_request f (hand s)) = Inl err"
  shows "handleSubmit http c s = (s\<lparr> isLoading := False, error := failure_message err \<rparr>, None)"
  using assms
  by (simp add: handleSubmit_def handleSubmit_begin_def handleSubmit_resume_def analyzeSwing_def)

lemma handleSubmit_fulfilled:
  assumes "file' s = Some f" and "http (analyze_request f (hand s)) = Inr response"
  shows "handleSubmit http c s =
     (s\<lparr> isLoading := False, error := JNull \<rparr>,
      Some \<lparr> to = ''/results'',
             state = JObj [(''result'', data response), (''userVideoUrl'', JStr (c f))] \<rparr>)"
  using assms
  by (simp add: handleSubmit_def handleSubmit_begin_def handleSubmit_resume_def analyzeSwing_def)

lemma optional_chain_Some: "optional_chain (Some v) k = get_prop v k"
  by (cases v) simp_all

text \<open>
  C2, as stated, fails in its second half: on a non-success status whose body has no
  \<^verbatim>\<open>detail\<close>, the message shown is the text of the rejected \<^verbatim>\<open>Error\<close>,
  not the generic fallback. The server answers 500 with \<^verbatim>\<open>{}\<close>.
\<close>

theorem no_detail_shows_error_text:
  "error (fst (handleSubmit server_500_no_detail blob_url ready_page)) = JStr status_500_text
   \<and> JStr status_500_text \<noteq> JStr generic_message"
  by (simp add: handleSubmit_def handleSubmit_begin_def handleSubmit_resume_def
      analyzeSwing_def server_500_no_detail_def ready_page_def initial_page_def status_500_text_def
      generic_message_def)

text \<open>
  C2, amended: when the call is rejected with a response whose body has a
  \<^verbatim>\<open>detail\<close> string, the workflow ends not loading, with its error set to exactly
  that string and no navigation; it is in Failed with that message whenever the string
  is not empty. When the body has no \<^verbatim>\<open>detail\<close> (or a \<^verbatim>\<open>null\<close> one), the
  error is the message of the thrown \<^verbatim>\<open>Error\<close>, and the generic fallback only
  when the thrown value is no \<^verbatim>\<open>Error\<close>.
\<close>

theorem failure_message_from_response:
  assumes "file' s = Some f"
    and "http (analyze_request f (hand s)) = Inl (Object is_Error msg (Has r))"
  shows "(get_prop (data r) ''detail'' = Some (JStr d) \<longrightarrow>
            handleSubmit http c s = (s\<lparr> isLoading := False, error := JStr d \<rparr>, None)
            \<and> (d \<noteq> [] \<longrightarrow> phase_of (fst (handleSubmit http c s)) = Failed (JStr d)))
       \<and> (get_prop (data r) ''detail'' = None \<or> get_prop (data r) ''detail'' = Some JNull \<longrightarrow>
            handleSubmit http c s =
              (s\<lparr> isLoading := False,
                  error := JStr (if is_Error then msg else generic_message) \<rparr>, None))"
  using handleSubmit_rejected [where http = http and s = s and f = f and c = c, OF assms]
  by (auto simp: optional_chain_Some phase_of_def)

text \<open>
  C2, at the scenario of the spec (500 with \<^verbatim>\<open>{"detail":"video too short"}\<close>) and
  at a 500 with an empty body.
\<close>

theorem failure_message_from_response_witness:
  "handleSubmit server_500_detail blob_url ready_page
     = (ready_page\<lparr> isLoading := False, error := JStr ''video too short'' \<rparr>, None)
   \<and> phase_of (fst (handleSubmit server_500_detail blob_url ready_page))
       = Failed (JStr ''video too short'')
   \<and> handleSubmit server_500_no_detail blob_url ready_page
       = (ready_page\<lparr> isLoading := False, error := JStr status_500_text \<rparr>, None)"
proof -
  have f: "file' ready_page = Some swing_video"
    by (simp add: ready_page_def initial_page_def)
  have a: "server_500_detail (analyze_request swing_video (hand ready_page))
      = Inl (Object True status_500_text
               (Has \<lparr> status = 500, data = JObj [(''detail'', JStr ''video too short'')] \<rparr>))"
    by (simp add: server_500_detail_def)
  have b: "server_500_no_detail (analyze_request swing_video (hand ready_page))
      = Inl (Object True status_500_text (Has \<lparr> status = 500, data = JObj [] \<rparr>))"
    by (simp add: server_500_no_detail_def)
  from failure_message_from_response
      [where http = server_500_detail and s = ready_page and f = swing_video
         and d = "''video too short''" and c = blob_url, OF f a]
    failure_message_from_response
      [where http = server_500_no_detail and s = ready_page and f = swing_video
         and d = "[]" and c = blob_url, OF f b]
  show ?thesis by auto
qed

text \<open>
  C5, as stated, fails: after a timeout the message is the text of the timeout
  \<^verbatim>\<open>Error\<close>, not the generic fallback.
\<close>

theorem timeout_message_is_not_generic:
  "timeout (analyze_request swing_video Right_hand) = Some 300000
   \<and> error (fst (handleSubmit server_timeout blob_url ready_page)) = JStr timeout_text
   \<and> JStr timeout_text \<noteq> JStr generic_message"
  by (simp add: handleSubmit_def handleSubmit_begin_def handleSubmit_resume_def
      analyzeSwing_def server_timeout_def ready_page_def initial_page_def timeout_text_def
      generic_message_def analyze_request_def)

text \<open>
  C5, amended: when the call is rejected with an \<^verbatim>\<open>Error\<close> that carries no
  response, as on a timeout after 300000 ms, \<open>handleSubmit\<close> completes: the
  rejection is caught, the workflow ends not loading, with no navigation and its error
  set to that \<^verbatim>\<open>Error\<close>'s own message (nothing of the server's), and it is in
  Failed with that message whenever the message is not empty.
\<close>

theorem timeout_reaches_failed:
  assumes "file' s = Some f"
    and "http (analyze_request f (hand s)) = Inl (Object True msg resp)"
    and "resp = NotIn \<or> resp = Nullish"
  shows "handleSubmit http c s = (s\<lparr> isLoading := False, error := JStr msg \<rparr>, None)
       \<and> (msg \<noteq> [] \<longrightarrow> phase_of (fst (handleSubmit http c s)) = Failed (JStr msg))"
  using handleSubmit_rejected [where http = http and s = s and f = f and c = c, OF assms(1,2)]
    assms(3)
  by (auto simp: phase_of_def)

text \<open>
  C5, at a timeout.
\<close>

theorem timeout_reaches_failed_witness:
  "handleSubmit server_timeout blob_url ready_page
     = (ready_page\<lparr> isLoading := False, error := JStr timeout_text \<rparr>, None)
   \<and> phase_of (fst (handleSubmit server_timeout blob_url ready_page)) = Failed (JStr timeout_text)"
proof -
  have f: "file' ready_page = Some swing_video"
    by (simp add: ready_page_def initial_page_def)
  have a: "server_timeout (analyze_request swing_video (hand ready_page))
      = Inl (Object True timeout_text NotIn)"
    by (simp add: server_timeout_def)
  have n: "timeout_text \<noteq> []"
    by (simp add: timeout_text_def)
  from timeout_reaches_failed
      [where http = server_timeout and s = ready_page and f = swing_video and c = blob_url,
        OF f a]
    n
  show ?thesis by auto
qed

text \<open>
  C9: with a file selected and hand \<^verbatim>\<open>"right"\<close>, when the server answers 200 with
  a body \<open>d\<close>, the workflow ends not loading and navigates once to
  \<^verbatim>\<open>/results\<close>, the route of the result page, with \<open>d\<close> itself as the
  \<^verbatim>\<open>result\<close> of the navigation state, which is what the result page reads.
\<close>

theorem success_hands_payload_off:
  assumes "file' s = Some f" and "hand s = Right_hand"
    and "http (analyze_request f Right_hand) = Inr \<lparr> status = 200, data = d \<rparr>"
  shows "handleSubmit http c s =
           (s\<lparr> isLoading := False, error := JNull \<rparr>,
            Some \<lparr> to = ''/results'',
                   state = JObj [(''result'', d), (''userVideoUrl'', JStr (c f))] \<rparr>)
       \<and> routes ''/results'' = Some ResultPage_element
       \<and> optional_chain (Some (JObj [(''result'', d), (''userVideoUrl'', JStr (c f))])) ''result''
           = Some d
       \<and> form (analyze_request f Right_hand)
           = [(''video'', FileValue f), (''hand'', TextValue ''right'')]"
  using handleSubmit_fulfilled
    [where http = http and s = s and f = f and c = c
       and response = "\<lparr> status = 200, data = d \<rparr>"]
    assms
  by (simp add: routes_def analyze_request_def)

text \<open>
  C9, at the scenario of the spec.
\<close>

theorem success_hands_payload_off_witness:
  "handleSubmit server_ok_scenario blob_url ready_page =
     (ready_page\<lparr> isLoading := False, error := JNull \<rparr>,
      Some \<lparr> to = ''/results'',
             state = JObj [(''result'', scenario_payload),
                           (''userVideoUrl'', JStr ''blob:swing.mp4'')] \<rparr>)"
proof -
  have f: "file' ready_page = Some swing_video" and h: "hand ready_page = Right_hand"
    by (simp_all add: ready_page_def initial_page_def)
  have a: "server_ok_scenario (analyze_request swing_video Right_hand)
      = Inr \<lparr> status = 200, data = scenario_payload \<rparr>"
    by (simp add: server_ok_scenario_def)
  have u: "blob_url swing_video = ''blob:swing.mp4''"
    by (simp add: swing_video_def)
  from success_hands_payload_off
      [where http = server_ok_scenario and s = ready_page and f = swing_video
         and d = scenario_payload and c = blob_url, OF f h a] u
  show ?thesis by simp
qed

text \<open>
  C10: a submission that starts a call puts the page in Submitting; once the call has
  settled, fulfilled or rejected, and on whatever state the page then has, the rest of
  \<open>handleSubmit\<close> leaves \<open>isLoading\<close> false, so the page is not in
  Submitting any more.
\<close>

theorem loading_flag_reset_when_settled:
  assumes "handleSubmit_begin s = (s1, Some (f, h))"
  shows "phase_of s1 = Submitting
       \<and> \<not> isLoading (fst (handleSubmit_resume c f settled s2))
       \<and> phase_of (fst (handleSubmit_resume c f settled s2)) \<noteq> Submitting
       \<and> phase_of (page (settle http c \<lparr> page = s1, in_flight = [(f, h)], navigations = ns \<rparr>))
           \<noteq> Submitting
       \<and> in_flight (settle http c \<lparr> page = s1, in_flight = [(f, h)], navigations = ns \<rparr>) = []"
proof -
  from assms have "phase_of s1 = Submitting"
    by (auto simp: handleSubmit_begin_def phase_of_def split: option.splits)
  moreover have r: "\<not> isLoading (fst (handleSubmit_resume c f x s))" for x s
    by (cases x) (simp_all add: handleSubmit_resume_def Let_def)
  moreover have "page (settle http c \<lparr> page = s1, in_flight = [(f, h)], navigations = ns \<rparr>)
      = fst (handleSubmit_resume c f (analyzeSwing http f h) s1)"
    by (simp add: settle_def split: prod.splits)
  moreover have "in_flight (settle http c \<lparr> page = s1, in_flight = [(f, h)], navigations = ns \<rparr>)
      = []"
    by (simp add: settle_def split: prod.splits)
  ultimately show ?thesis
    by (simp add: phase_of_def)
qed

text \<open>
  C10, on the success path and on the failure path.
\<close>

theorem loading_flag_reset_when_settled_witness:
  "handleSubmit_begin ready_page = (ready_page\<lparr> isLoading := True \<rparr>, Some (swing_video, Right_hand))
   \<and> phase_of (ready_page\<lparr> isLoading := True \<rparr>) = Submitting
   \<and> \<not> isLoading (fst (handleSubmit_resume blob_url swing_video (Inr scenario_payload)
          (ready_page\<lparr> isLoading := True \<rparr>)))
   \<and> \<not> isLoading (fst (handleSubmit_resume blob_url swing_video
          (Inl (Object True timeout_text NotIn)) (ready_page\<lparr> isLoading := True \<rparr>)))"
proof -
  have b: "handleSubmit_begin ready_page
      = (ready_page\<lparr> isLoading := True \<rparr>, Some (swing_video, Right_hand))"
    by (simp add: handleSubmit_begin_def ready_page_def initial_page_def)
  from loading_flag_reset_when_settled [OF b, of blob_url "Inr scenario_payload"
      "ready_page\<lparr> isLoading := True \<rparr>"]
    loading_flag_reset_when_settled [OF b, of blob_url "Inl (Object True timeout_text NotIn)"
      "ready_page\<lparr> isLoading := True \<rparr>"]
    b
  show ?thesis by simp
qed

text \<open>
  \<open>handleSubmit\<close> itself does not look at \<open>isLoading\<close>: it is the page that,
  while loading, renders nothing that could call it.
\<close>

lemma handleSubmit_begin_unguarded:
  "file' s = Some f \<Longrightarrow> isLoading s \<Longrightarrow> snd (handleSubmit_begin s) = Some (f, hand s)"
  by (simp add: handleSubmit_begin_def)

text \<open>
  C3: while the workflow is in Submitting, a submit by the user has no effect: the
  page renders \<^verbatim>\<open><LoadingState />\<close> alone, which offers no submit, so no second
  call is started and the state does not change.
\<close>

theorem submit_while_submitting_is_ignored:
  assumes "phase_of (page w) = Submitting"
  shows "user_event onSubmit w = w
       \<and> in_flight (user_event onSubmit w) = in_flight w
       \<and> page (user_event onSubmit w) = page w"
proof -
  from assms have "isLoading (page w)"
    by (simp add: phase_of_def split: if_splits)
  then have "UploadPage (page w) = LoadingState"
    by (simp add: UploadPage_def)
  then show ?thesis
    by (simp add: user_event_def)
qed

text \<open>
  C3, at the workflow right after a first submit.
\<close>

theorem submit_while_submitting_is_ignored_witness:
  "phase_of (page submitting_workflow) = Submitting
   \<and> in_flight submitting_workflow = [(swing_video, Right_hand)]
   \<and> user_event onSubmit submitting_workflow = submitting_workflow"
proof -
  have w: "submitting_workflow =
      \<lparr> page = ready_page\<lparr> isLoading := True \<rparr>,
        in_flight = [(swing_video, Right_hand)], navigations = [] \<rparr>"
    by (simp add: submitting_workflow_def user_event_def UploadPage_def mounted_def
        ready_page_def initial_page_def handleSubmit_begin_def)
  have p: "phase_of (page submitting_workflow) = Submitting"
    by (simp add: w phase_of_def)
  have i: "in_flight submitting_workflow = [(swing_video, Right_hand)]"
    by (simp add: w)
  from submit_while_submitting_is_ignored [OF p]
  have "user_event onSubmit submitting_workflow = submitting_workflow" ..
  with p i show ?thesis by (intro conjI)
qed

text \<open>
  C7: in a Failed state, dismissing the error (\<^verbatim>\<open>onRetry\<close>) only sets the
  error to \<^verbatim>\<open>null\<close>: the workflow is in Idle, with the same file and the same
  hand.
\<close>

theorem dismiss_returns_to_idle:
  assumes "phase_of (page w) = Failed m"
  shows "user_event onRetry w = w\<lparr> page := (page w)\<lparr> error := JNull \<rparr> \<rparr>
       \<and> phase_of (page (user_event onRetry w)) = Idle
       \<and> file' (page (user_event onRetry w)) = file' (page w)
       \<and> hand (page (user_event onRetry w)) = hand (page w)"
proof -
  from assms have l: "\<not> isLoading (page w)" and t: "truthy (error (page w))"
    by (simp_all add: phase_of_def split: if_splits)
  then have "offers (UploadPage (page w)) onRetry"
    by (simp add: UploadPage_def)
  then have "user_event onRetry w = w\<lparr> page := (page w)\<lparr> error := JNull \<rparr> \<rparr>"
    by (simp add: user_event_def)
  with l show ?thesis
    by (simp add: phase_of_def)
qed

text \<open>
  C7, at a page that failed with a file selected and the left hand chosen.
\<close>

theorem dismiss_returns_to_idle_witness:
  "phase_of (page (mounted failed_page)) = Failed (JStr ''video too short'')
   \<and> phase_of (page (user_event onRetry (mounted failed_page))) = Idle
   \<and> file' (page (user_event onRetry (mounted failed_page))) = Some swing_video
   \<and> hand (page (user_event onRetry (mounted failed_page))) = Left_hand"
proof -
  have p: "phase_of (page (mounted failed_page)) = Failed (JStr ''video too short'')"
    by (simp add: mounted_def failed_page_def phase_of_def)
  have s: "file' (page (mounted failed_page)) = Some swing_video"
    "hand (page (mounted failed_page)) = Left_hand"
    by (simp_all add: mounted_def failed_page_def)
  from dismiss_returns_to_idle [OF p]
  have "phase_of (page (user_event onRetry (mounted failed_page))) = Idle"
    and "file' (page (user_event onRetry (mounted failed_page))) = file' (page (mounted failed_page))"
    and "hand (page (user_event onRetry (mounted failed_page))) = hand (page (mounted failed_page))"
    by blast+
  with p s show ?thesis by (simp only: simp_thms)
qed

section \<open>The result hand-off: no payload\<close>

text \<open>
  C6: when the navigation state is \<^verbatim>\<open>null\<close> or has no \<^verbatim>\<open>result\<close>, the
  result page returns the view that says no results were found, with a button that
  navigates to \<^verbatim>\<open>/\<close>, the route of the upload page. \<open>ResultPage\<close> is total:
  nothing on this path can throw.
\<close>

theorem missing_result_renders_fallback:
  assumes "st = JNull \<or> get_prop st ''result'' = None"
  shows "ResultPage st = NoResults ''No analysis results found.'' ''Upload a Video'' ''/''
       \<and> routes ''/'' = Some UploadPage_element"
proof -
  from assms have "optional_chain (Some st) ''result'' = None"
    by (auto simp: optional_chain_Some)
  then show ?thesis
    by (simp add: ResultPage_def no_results_view_def routes_def)
qed

text \<open>
  C6, at no state at all and at a state without a result.
\<close>

theorem missing_result_renders_fallback_witness:
  "ResultPage JNull = NoResults ''No analysis results found.'' ''Upload a Video'' ''/''
   \<and> ResultPage (JObj [(''userVideoUrl'', JStr ''blob:swing.mp4'')])
       = NoResults ''No analysis results found.'' ''Upload a Video'' ''/''
   \<and> routes ''/'' = Some UploadPage_element"
proof -
  have a: "JNull = JNull \<or> get_prop JNull ''result'' = None"
    by simp
  have b: "JObj [(''userVideoUrl'', JStr ''blob:swing.mp4'')] = JNull
      \<or> get_prop (JObj [(''userVideoUrl'', JStr ''blob:swing.mp4'')]) ''result'' = None"
    by simp
  from missing_result_renders_fallback [OF a] missing_result_renders_fallback [OF b]
  show ?thesis by simp
qed

end
